theory Spec2Isabelle
  imports Main
begin

section \<open>The prompt runner of \<^verbatim>\<open>claude_client.py\<close>\<close>

text \<open>
  The script reads one command-line argument, reads a credential from the process
  environment, issues one call to the completion service through the vendor SDK and prints
  the text of the first content block of the reply. Nothing of the SDK is part of the
  repository: the service is a parameter of the model, a function from the credential the
  client was built with and the keyword arguments of \<^verbatim>\<open>client.messages.create\<close> to either
  the exception the call raises or the message it returns.
\<close>

subsection \<open>Values handed to the SDK\<close>

text \<open>
  The call at lines 14 to 21 passes keyword arguments: two scalars and a list holding one
  dictionary. A dictionary literal is kept as the list of its items in source order, so
  that "no other key is present" is a statement about the list.
\<close>

datatype py_value =
    PyStr string
  | PyInt int
  | PyList "py_value list"
  | PyDict "(string \<times> py_value) list"

type_synonym kwargs = "(string \<times> py_value) list"

subsection \<open>Values returned by the SDK\<close>

text \<open>
  \<^verbatim>\<open>message.content\<close> is a list of content blocks. A text block has the attribute
  \<^verbatim>\<open>text\<close>; the SDK's other block classes do not, and reading it from one of them raises
  \<^verbatim>\<open>AttributeError\<close>. The argument of \<open>OtherBlock\<close> is the name of its class.
\<close>

datatype content_block =
    TextBlock string
  | OtherBlock string

record message =
  content :: "content_block list"

subsection \<open>Exceptions\<close>

text \<open>
  \<open>ValueError\<close> is raised by line 10, \<open>IndexError\<close> by the subscript of line 23 on an empty
  list, \<open>AttributeError\<close> by the attribute access of line 23. \<open>ServiceError\<close> stands for
  whatever the SDK call raises (authentication, transport, rate limit), with its message.
\<close>

datatype exn =
    ValueError string
  | IndexError string
  | AttributeError string
  | ServiceError string

type_synonym environ = "string \<rightharpoonup> string"

type_synonym service = "string \<Rightarrow> kwargs \<Rightarrow> exn + message"

subsection \<open>The observable state of the process\<close>

text \<open>
  Standard output is the text the script writes. The script itself never writes to the
  diagnostic stream: the only thing that reaches it is the interpreter's report of an
  exception nobody caught, kept here as the exception reported. \<open>calls\<close> lists the requests
  made to the completion service, each with the credential of the client that made it, and
  \<open>env_reads\<close> lists the names looked up in \<^verbatim>\<open>os.environ\<close>.
\<close>

datatype diagnostic = Traceback exn

record world =
  stdout :: string
  stderr :: "diagnostic list"
  calls :: "(string \<times> kwargs) list"
  env_reads :: "string list"

definition start :: world where
  "start = \<lparr>stdout = [], stderr = [], calls = [], env_reads = []\<rparr>"

definition newline :: string where
  "newline = [CHR 0x0A]"

text \<open>\<^verbatim>\<open>print(s)\<close> of a string: the string, then one line feed, on standard output.\<close>

definition py_print :: "string \<Rightarrow> world \<Rightarrow> world" where
  "py_print s w = w\<lparr>stdout := stdout w @ s @ newline\<rparr>"

subsection \<open>\<^verbatim>\<open>generate_code\<close>, lines 5 to 23\<close>

text \<open>The keyword arguments of \<^verbatim>\<open>client.messages.create\<close>, lines 15 to 20.\<close>

definition create_kwargs :: "string \<Rightarrow> kwargs" where
  "create_kwargs prompt =
     [(''model'', PyStr ''claude-sonnet-4-20250514''),
      (''max_tokens'', PyInt 4096),
      (''messages'', PyList [PyDict [(''role'', PyStr ''user''), (''content'', PyStr prompt)]])]"

text \<open>
  \<^verbatim>\<open>os.environ.get\<close> gives \<open>None\<close> for a name that is not set; \<^verbatim>\<open>not api_key\<close> holds for
  \<open>None\<close> and for the empty string. Building the client makes no request; the one request
  is \<^verbatim>\<open>client.messages.create\<close>.
\<close>

definition generate_code :: "environ \<Rightarrow> service \<Rightarrow> string \<Rightarrow> world \<Rightarrow> (exn + string) \<times> world" where
  "generate_code env svc prompt w =
     (let api_key = env ''ANTHROPIC_API_KEY'';
          w1 = w\<lparr>env_reads := env_reads w @ [''ANTHROPIC_API_KEY'']\<rparr>
      in (case api_key of
           None \<Rightarrow> (Inl (ValueError ''ANTHROPIC_API_KEY not set''), w1)
         | Some key \<Rightarrow>
             (if key = [] then (Inl (ValueError ''ANTHROPIC_API_KEY not set''), w1)
              else
               let w2 = w1\<lparr>calls := calls w1 @ [(key, create_kwargs prompt)]\<rparr>
               in (case svc key (create_kwargs prompt) of
                     Inl e \<Rightarrow> (Inl e, w2)
                   | Inr message \<Rightarrow>
                       (case content message of
                          [] \<Rightarrow> (Inl (IndexError ''list index out of range''), w2)
                        | block # _ \<Rightarrow>
                            (case block of
                               TextBlock t \<Rightarrow> (Inr t, w2)
                             | OtherBlock _ \<Rightarrow> (Inl (AttributeError ''text''), w2)))))))"

subsection \<open>The script body, lines 25 to 32\<close>

text \<open>
  The result is the exit status and the final state. \<^verbatim>\<open>sys.exit(1)\<close> ends the process with
  status 1; an exception that leaves \<^verbatim>\<open>generate_code\<close> is caught nowhere, so the interpreter
  reports it on the diagnostic stream and ends the process with status 1; running off the
  end of the script ends it with status 0.
\<close>

definition main :: "string list \<Rightarrow> environ \<Rightarrow> service \<Rightarrow> int \<times> world" where
  "main argv env svc =
     (if length argv < 2 then (1, py_print ''Usage: claude_client.py <prompt>'' start)
      else
        let prompt = argv ! 1
        in case generate_code env svc prompt start of
             (Inl e, w) \<Rightarrow> (1, w\<lparr>stderr := stderr w @ [Traceback e]\<rparr>)
           | (Inr code, w) \<Rightarrow> (0, py_print code w))"

subsection \<open>Test doubles\<close>

text \<open>
  The service stubs of the specification's testable properties: one that answers every
  request with a single text block, one that answers with no content block at all.
\<close>

definition stub_reply :: "string \<Rightarrow> service" where
  "stub_reply r key kw = Inr \<lparr>content = [TextBlock r]\<rparr>"

definition stub_no_content :: service where
  "stub_no_content key kw = Inr \<lparr>content = []\<rparr>"

definition env_with_key :: "string \<Rightarrow> environ" where
  "env_with_key k = [''ANTHROPIC_API_KEY'' \<mapsto> k]"

definition env_without_key :: environ where
  "env_without_key = Map.empty"

section \<open>Properties\<close>

lemma main_two_or_more:
  "main (prog # p # extra) env svc =
     (case generate_code env svc p start of
        (Inl e, w) \<Rightarrow> (1, w\<lparr>stderr := stderr w @ [Traceback e]\<rparr>)
      | (Inr code, w) \<Rightarrow> (0, py_print code w))"
  by (simp add: main_def)

lemma generate_code_with_key:
  assumes "env ''ANTHROPIC_API_KEY'' = Some k" and "k \<noteq> []"
  shows "generate_code env svc p w =
     (let w2 = w\<lparr>env_reads := env_reads w @ [''ANTHROPIC_API_KEY''],
                  calls := calls w @ [(k, create_kwargs p)]\<rparr>
      in case svc k (create_kwargs p) of
           Inl e \<Rightarrow> (Inl e, w2)
         | Inr m \<Rightarrow>
             (case content m of
                [] \<Rightarrow> (Inl (IndexError ''list index out of range''), w2)
              | TextBlock t # _ \<Rightarrow> (Inr t, w2)
              | OtherBlock _ # _ \<Rightarrow> (Inl (AttributeError ''text''), w2)))"
  using assms
  by (simp add: generate_code_def Let_def split: sum.splits list.splits content_block.splits)

text \<open>
  C1. With a non-empty credential in the environment and a service whose reply has a
  text block with text \<open>R\<close> first, \<^verbatim>\<open>generate_code\<close> returns exactly \<open>R\<close> for every
  non-empty prompt, and the process writes \<open>R\<close> and one line feed to standard output and
  nothing else (standard output does not mention the prompt), writes nothing to the
  diagnostic stream, and exits with status 0.
\<close>

theorem success_returns_and_prints_reply:
  assumes "P \<noteq> []"
    and "env ''ANTHROPIC_API_KEY'' = Some k" and "k \<noteq> []"
    and "svc k (create_kwargs P) = Inr m" and "content m = TextBlock R # others"
  shows "fst (generate_code env svc P start) = Inr R
       \<and> fst (main (prog # P # extra) env svc) = 0
       \<and> stdout (snd (main (prog # P # extra) env svc)) = R @ [CHR 0x0A]
       \<and> stderr (snd (main (prog # P # extra) env svc)) = []"
  using assms(2-)
  by (simp add: main_two_or_more generate_code_with_key py_print_def newline_def start_def)

theorem success_returns_and_prints_reply_witness:
  "''write a haiku'' \<noteq> []
   \<and> env_with_key ''sk-test'' ''ANTHROPIC_API_KEY'' = Some ''sk-test''
   \<and> ''sk-test'' \<noteq> []
   \<and> stub_reply ''lines of code at rest'' ''sk-test'' (create_kwargs ''write a haiku'')
       = Inr \<lparr>content = [TextBlock ''lines of code at rest'']\<rparr>
   \<and> fst (generate_code (env_with_key ''sk-test'') (stub_reply ''lines of code at rest'')
         ''write a haiku'' start) = Inr ''lines of code at rest''
   \<and> fst (main [''claude_client.py'', ''write a haiku''] (env_with_key ''sk-test'')
         (stub_reply ''lines of code at rest'')) = 0
   \<and> stdout (snd (main [''claude_client.py'', ''write a haiku''] (env_with_key ''sk-test'')
         (stub_reply ''lines of code at rest''))) = ''lines of code at rest'' @ [CHR 0x0A]
   \<and> stderr (snd (main [''claude_client.py'', ''write a haiku''] (env_with_key ''sk-test'')
         (stub_reply ''lines of code at rest''))) = []"
  using success_returns_and_prints_reply
    [of "''write a haiku''" "env_with_key ''sk-test''" "''sk-test''"
        "stub_reply ''lines of code at rest''" "\<lparr>content = [TextBlock ''lines of code at rest'']\<rparr>"
        "''lines of code at rest''" "[]" "''claude_client.py''" "[]"]
  by (simp add: env_with_key_def stub_reply_def)

lemma main_no_prompt:
  "length argv < 2 \<Longrightarrow>
   main argv env svc =
     (1, \<lparr>stdout = ''Usage: claude_client.py <prompt>'' @ [CHR 0x0A], stderr = [],
          calls = [], env_reads = []\<rparr>)"
  by (simp add: main_def py_print_def start_def newline_def)

lemma generate_code_without_key:
  assumes "env ''ANTHROPIC_API_KEY'' = None \<or> env ''ANTHROPIC_API_KEY'' = Some []"
  shows "generate_code env svc p w =
     (Inl (ValueError ''ANTHROPIC_API_KEY not set''),
      w\<lparr>env_reads := env_reads w @ [''ANTHROPIC_API_KEY'']\<rparr>)"
  using assms by (auto simp add: generate_code_def Let_def)


text \<open>
  C2. When the credential variable is absent or holds the empty string,
  \<^verbatim>\<open>generate_code\<close> raises the error "ANTHROPIC_API_KEY not set" for every prompt (the
  specification's ConfigurationError is the script's \<^verbatim>\<open>ValueError\<close> with that message) having
  made no request, and the process ends with status 1 with nothing on standard output and
  the error reported on the diagnostic stream. The whole outcome is the same for the absent
  and for the empty variable.
\<close>

theorem missing_credential_fails_before_any_call:
  assumes "env ''ANTHROPIC_API_KEY'' = None \<or> env ''ANTHROPIC_API_KEY'' = Some []"
  shows "generate_code env svc P w =
           (Inl (ValueError ''ANTHROPIC_API_KEY not set''),
            w\<lparr>env_reads := env_reads w @ [''ANTHROPIC_API_KEY'']\<rparr>)
       \<and> main (prog # P # extra) env svc =
           (1, \<lparr>stdout = [], stderr = [Traceback (ValueError ''ANTHROPIC_API_KEY not set'')],
                calls = [], env_reads = [''ANTHROPIC_API_KEY'']\<rparr>)
       \<and> main (prog # P # extra) (env(''ANTHROPIC_API_KEY'' := None)) svc =
           main (prog # P # extra) (env(''ANTHROPIC_API_KEY'' \<mapsto> [])) svc"
proof -
  have run: "main (prog # P # extra) e svc =
      (1, \<lparr>stdout = [], stderr = [Traceback (ValueError ''ANTHROPIC_API_KEY not set'')],
           calls = [], env_reads = [''ANTHROPIC_API_KEY'']\<rparr>)"
    if "e ''ANTHROPIC_API_KEY'' = None \<or> e ''ANTHROPIC_API_KEY'' = Some []" for e
    by (simp add: main_two_or_more generate_code_without_key [where env = e, OF that] start_def)
  have "main (prog # P # extra) (env(''ANTHROPIC_API_KEY'' := None)) svc =
      main (prog # P # extra) (env(''ANTHROPIC_API_KEY'' \<mapsto> [])) svc"
    by (simp add: run)
  with generate_code_without_key [where env = env, OF assms] run [where e = env, OF assms]
  show ?thesis by simp
qed

theorem missing_credential_fails_before_any_call_witness:
  "env_without_key ''ANTHROPIC_API_KEY'' = None
   \<and> env_with_key [] ''ANTHROPIC_API_KEY'' = Some []
   \<and> main [''claude_client.py'', ''write a haiku''] env_without_key (stub_reply ''ok'') =
       (1, \<lparr>stdout = [], stderr = [Traceback (ValueError ''ANTHROPIC_API_KEY not set'')],
            calls = [], env_reads = [''ANTHROPIC_API_KEY'']\<rparr>)
   \<and> main [''claude_client.py'', ''write a haiku''] (env_with_key []) (stub_reply ''ok'') =
       (1, \<lparr>stdout = [], stderr = [Traceback (ValueError ''ANTHROPIC_API_KEY not set'')],
            calls = [], env_reads = [''ANTHROPIC_API_KEY'']\<rparr>)"
proof -
  have absent: "env_without_key ''ANTHROPIC_API_KEY'' = None"
    by (simp add: env_without_key_def)
  have empty: "env_with_key [] ''ANTHROPIC_API_KEY'' = Some []"
    by (simp add: env_with_key_def)
  show ?thesis
    using absent empty
      missing_credential_fails_before_any_call
        [of env_without_key "stub_reply ''ok''" "''write a haiku''" start
            "''claude_client.py''" "[]"]
      missing_credential_fails_before_any_call
        [of "env_with_key []" "stub_reply ''ok''" "''write a haiku''" start
            "''claude_client.py''" "[]"]
    by simp
qed

text \<open>
  C3, as the specification states it: without a prompt argument no request is made, the
  usage message is printed to the diagnostic stream and the exit status is not 0. The
  script prints the usage message with a plain \<^verbatim>\<open>print\<close>, so at the argument list that
  holds the script's name only the diagnostic stream stays empty.
\<close>

theorem usage_on_diagnostic_stream_counterexample:
  "\<not> (calls (snd (main [''claude_client.py''] env_without_key (stub_reply ''ok''))) = []
      \<and> stderr (snd (main [''claude_client.py''] env_without_key (stub_reply ''ok''))) \<noteq> []
      \<and> fst (main [''claude_client.py''] env_without_key (stub_reply ''ok'')) \<noteq> 0)"
  by (simp add: main_no_prompt)

text \<open>
  C3, amended: without a prompt argument (an argument list of fewer than two entries) the
  process makes no request, writes the line \<^verbatim>\<open>Usage: claude_client.py <prompt>\<close> to standard
  output, writes nothing to the diagnostic stream and exits with status 1.
\<close>

theorem no_prompt_prints_usage_on_stdout:
  assumes "length argv < 2"
  shows "fst (main argv env svc) = 1
       \<and> stdout (snd (main argv env svc)) = ''Usage: claude_client.py <prompt>'' @ [CHR 0x0A]
       \<and> stderr (snd (main argv env svc)) = []
       \<and> calls (snd (main argv env svc)) = []"
  using assms by (simp add: main_no_prompt)

theorem no_prompt_prints_usage_on_stdout_witness:
  "length [''claude_client.py''] < 2
   \<and> fst (main [''claude_client.py''] (env_with_key ''sk-test'') (stub_reply ''ok'')) = 1
   \<and> stdout (snd (main [''claude_client.py''] (env_with_key ''sk-test'') (stub_reply ''ok'')))
       = ''Usage: claude_client.py <prompt>'' @ [CHR 0x0A]
   \<and> stderr (snd (main [''claude_client.py''] (env_with_key ''sk-test'') (stub_reply ''ok''))) = []
   \<and> calls (snd (main [''claude_client.py''] (env_with_key ''sk-test'') (stub_reply ''ok''))) = []"
proof -
  have short: "length [''claude_client.py''] < 2" by simp
  show ?thesis
    using short
      no_prompt_prints_usage_on_stdout
        [OF short, of "env_with_key ''sk-test''" "stub_reply ''ok''"]
    by simp
qed

text \<open>
  C9. The argument check comes first: without a prompt argument the process ends with the
  usage outcome having looked up no name in the environment, whatever the environment
  holds, the credential variable absent or empty included. No \<^verbatim>\<open>ValueError\<close> is reported.
\<close>

theorem usage_check_precedes_credential_check:
  assumes "length argv < 2"
  shows "env_reads (snd (main argv env svc)) = []
       \<and> main argv env svc = main argv env' svc'
       \<and> fst (main argv env svc) = 1
       \<and> stdout (snd (main argv env svc)) = ''Usage: claude_client.py <prompt>'' @ [CHR 0x0A]
       \<and> Traceback (ValueError ''ANTHROPIC_API_KEY not set'') \<notin> set (stderr (snd (main argv env svc)))"
  using assms by (simp add: main_no_prompt)

theorem usage_check_precedes_credential_check_witness:
  "length [''claude_client.py''] < 2
   \<and> env_reads (snd (main [''claude_client.py''] env_without_key (stub_reply ''ok''))) = []
   \<and> main [''claude_client.py''] env_without_key (stub_reply ''ok'')
       = main [''claude_client.py''] (env_with_key []) (stub_reply ''ok'')
   \<and> fst (main [''claude_client.py''] env_without_key (stub_reply ''ok'')) = 1
   \<and> stdout (snd (main [''claude_client.py''] env_without_key (stub_reply ''ok'')))
       = ''Usage: claude_client.py <prompt>'' @ [CHR 0x0A]"
proof -
  have short: "length [''claude_client.py''] < 2" by simp
  show ?thesis
    using short
      usage_check_precedes_credential_check
        [OF short, of env_without_key "stub_reply ''ok''" "env_with_key []" "stub_reply ''ok''"]
    by blast
qed

text \<open>
  C10. Arguments after the prompt are never read: an invocation with a prompt and any
  further arguments has the outcome (exit status, both streams, the request made, the
  names read from the environment) of the invocation with that prompt alone.
\<close>

theorem extra_arguments_ignored:
  "main (prog # P # extra) env svc = main [prog, P] env svc"
  by (simp add: main_two_or_more)

text \<open>
  C4. The specification asks that a reply with no content block be reported as an error of
  its own, not as a crash. The script subscripts \<^verbatim>\<open>message.content\<close> with no check, unlike
  the credential, which it tests before use: with the stub that answers with no content
  block the run ends in the interpreter's report of an \<^verbatim>\<open>IndexError\<close> nobody caught, after
  the request was made. Standard output stays empty and the exit status is 1.
\<close>

theorem empty_content_ends_in_uncaught_index_error:
  "main [''claude_client.py'', ''write a haiku''] (env_with_key ''sk-test'') stub_no_content =
     (1, \<lparr>stdout = [], stderr = [Traceback (IndexError ''list index out of range'')],
          calls = [(''sk-test'', create_kwargs ''write a haiku'')],
          env_reads = [''ANTHROPIC_API_KEY'']\<rparr>)"
  by (simp add: main_two_or_more generate_code_def env_with_key_def stub_no_content_def
      start_def Let_def)







text \<open>
  C8. The credential reaches the service and nothing else. For two credentials, neither
  empty, to which the service gives the same answers, and otherwise the same argument list
  and environment, the exit status, standard output and the diagnostic stream are the same.
\<close>

theorem output_independent_of_credential:
  assumes "k1 \<noteq> []" and "k2 \<noteq> []" and "svc k1 = svc k2"
  shows "stdout (snd (main argv (env(''ANTHROPIC_API_KEY'' \<mapsto> k1)) svc))
           = stdout (snd (main argv (env(''ANTHROPIC_API_KEY'' \<mapsto> k2)) svc))
       \<and> stderr (snd (main argv (env(''ANTHROPIC_API_KEY'' \<mapsto> k1)) svc))
           = stderr (snd (main argv (env(''ANTHROPIC_API_KEY'' \<mapsto> k2)) svc))
       \<and> fst (main argv (env(''ANTHROPIC_API_KEY'' \<mapsto> k1)) svc)
           = fst (main argv (env(''ANTHROPIC_API_KEY'' \<mapsto> k2)) svc)"
proof (cases "length argv < 2")
  case True
  then show ?thesis by (simp add: main_no_prompt)
next
  case False
  have g: "generate_code (env(''ANTHROPIC_API_KEY'' \<mapsto> k)) svc p start =
      (let w2 = start\<lparr>env_reads := env_reads start @ [''ANTHROPIC_API_KEY''],
                       calls := calls start @ [(k, create_kwargs p)]\<rparr>
       in case svc k (create_kwargs p) of
            Inl e \<Rightarrow> (Inl e, w2)
          | Inr m \<Rightarrow>
              (case content m of
                 [] \<Rightarrow> (Inl (IndexError ''list index out of range''), w2)
               | TextBlock t # _ \<Rightarrow> (Inr t, w2)
               | OtherBlock _ # _ \<Rightarrow> (Inl (AttributeError ''text''), w2)))"
    if "k \<noteq> []" for k p
    using that by (simp add: generate_code_with_key)
  from False assms show ?thesis
    by (simp add: main_def g Let_def py_print_def
        split: sum.splits list.splits content_block.splits)
qed

theorem output_independent_of_credential_witness:
  "''sk-one'' \<noteq> [] \<and> ''sk-two'' \<noteq> []
   \<and> stub_reply ''ok'' ''sk-one'' = stub_reply ''ok'' ''sk-two''
   \<and> stdout (snd (main [''claude_client.py'', ''write a haiku'']
         (env_without_key(''ANTHROPIC_API_KEY'' \<mapsto> ''sk-one'')) (stub_reply ''ok'')))
       = stdout (snd (main [''claude_client.py'', ''write a haiku'']
         (env_without_key(''ANTHROPIC_API_KEY'' \<mapsto> ''sk-two'')) (stub_reply ''ok'')))
   \<and> stderr (snd (main [''claude_client.py'', ''write a haiku'']
         (env_without_key(''ANTHROPIC_API_KEY'' \<mapsto> ''sk-one'')) (stub_reply ''ok'')))
       = stderr (snd (main [''claude_client.py'', ''write a haiku'']
         (env_without_key(''ANTHROPIC_API_KEY'' \<mapsto> ''sk-two'')) (stub_reply ''ok'')))"
proof -
  have one: "''sk-one'' \<noteq> []" and two: "''sk-two'' \<noteq> []" by simp_all
  have same: "stub_reply ''ok'' ''sk-one'' = stub_reply ''ok'' ''sk-two''"
    by (simp add: stub_reply_def fun_eq_iff)
  show ?thesis
    using one two same
      output_independent_of_credential
        [OF one two same, of "[''claude_client.py'', ''write a haiku'']" env_without_key]
    by blast
qed

end
